theory Spec2Isabelle
  imports
    Complex_Main
    "HOL-Library.Char_ord"
    "HOL-Library.List_Lexorder"
    "HOL-Library.Product_Lexorder"
    "HOL-Library.Sublist"
begin

section \<open>Python strings\<close>

text \<open>
  A Python \<open>str\<close> is modelled as a \<^typ>\<open>string\<close> holding its UTF-8 bytes, so equality and
  the lexicographic order of two texts are those of Python (UTF-8 keeps the order of code
  points). \<open>str.strip\<close>, \<open>str.split\<close> and \<open>str.lower\<close> are modelled on ASCII: the white
  space is the ASCII white space of \<open>str.isspace\<close>, and \<open>lower\<close> changes the letters
  \<open>A\<close> to \<open>Z\<close> only. Floats are modelled as reals: rounding is not modelled.
\<close>

definition is_space :: "char \<Rightarrow> bool" where
  "is_space c = (c \<in> set [CHR 0x09, CHR 0x0A, CHR 0x0B, CHR 0x0C, CHR 0x0D,
                             CHR 0x1C, CHR 0x1D, CHR 0x1E, CHR 0x1F, CHR 0x20])"

definition strip :: "string \<Rightarrow> string" where
  "strip s = rev (dropWhile is_space (rev (dropWhile is_space s)))"

definition lower_char :: "char \<Rightarrow> char" where
  "lower_char c =
     (if 65 \<le> (of_char c :: nat) \<and> (of_char c :: nat) \<le> 90
      then char_of ((of_char c :: nat) + 32) else c)"

definition lower :: "string \<Rightarrow> string" where
  "lower s = map lower_char s"

text \<open>\<open>key in s\<close> on two strings: \<open>key\<close> occurs in \<open>s\<close> as a contiguous run.\<close>

fun str_in :: "string \<Rightarrow> string \<Rightarrow> bool" where
  "str_in key [] = (key = [])"
| "str_in key (c # cs) = (prefix key (c # cs) \<or> str_in key cs)"

text \<open>
  A text cell of a data frame: \<open>None\<close> is the missing value (NaN), which \<open>str\<close> prints as
  \<open>nan\<close>.
\<close>

type_synonym text_cell = "string option"

definition str_cell :: "text_cell \<Rightarrow> string" where
  "str_cell c = (case c of None \<Rightarrow> ''nan'' | Some s \<Rightarrow> s)"

text \<open>The two bytes of e with acute accent, as the stage labels of the source have it.\<close>

definition e_acute :: string where
  "e_acute = [CHR 0xC3, CHR 0xA9]"

section \<open>Stage mapping of the business transformation processor\<close>

text \<open>
  The certainty cell of an opportunity row. \<open>CMissing\<close> is None or NaN (\<open>pd.notna\<close> is
  false), \<open>CNumber r\<close> is any value that \<open>float\<close> turns into the finite number \<open>r\<close>,
  \<open>CNanText\<close> is a text that \<open>float\<close> turns into NaN, \<open>CUnparsable\<close> is any value on which
  \<open>float\<close> raises.
\<close>

datatype certainty_cell = CMissing | CNumber real | CNanText | CUnparsable

text \<open>
  A cell that \<open>pd.to_numeric\<close> reads: a number, or anything it coerces to NaN.
\<close>

datatype num_cell = Numeric real | NonNumeric

record opportunity =
  Oppo_Status :: text_cell
  Oppo_Stage :: text_cell
  Oppo_Certainty :: certainty_cell
  Oppo_Type :: text_cell
  Oppo_Forecast :: num_cell
  oppo_cout :: num_cell

text \<open>
  The float the source computes from the cell (\<open>None\<close> is the float NaN): a missing cell
  and a conversion that raises both give 0.
\<close>

definition to_certainty :: "certainty_cell \<Rightarrow> real option" where
  "to_certainty c =
     (case c of CMissing \<Rightarrow> Some 0 | CNumber r \<Rightarrow> Some r | CNanText \<Rightarrow> None
      | CUnparsable \<Rightarrow> Some 0)"

text \<open>\<open>certainty <= 10\<close> on floats: false on NaN.\<close>

definition float_le :: "real option \<Rightarrow> real \<Rightarrow> bool" where
  "float_le x b = (case x of None \<Rightarrow> False | Some r \<Rightarrow> r \<le> b)"

definition determine_pipeline_bt :: "text_cell \<Rightarrow> string" where
  "determine_pipeline_bt oppo_type =
     (if oppo_type = None \<or> oppo_type = Some '''' then ''Sales Pipeline''
      else if strip (str_cell oppo_type) = ''Preetude'' then ''Studies Pipeline''
      else ''Sales Pipeline'')"

type_synonym stage_result = "string \<times> string \<times> string"

definition studies_active_table :: "(string \<times> stage_result) list" where
  "studies_active_table =
     [(''identification'', (''01-Identification'', ''In Progress'', ''Mapped to Studies Pipeline'')),
      (''qualified'', (''02-Qualifi'' @ e_acute @ ''e'', ''In Progress'', ''Mapped to Studies Pipeline'')),
      (''evaluation technique'', (''03-Evaluation technique'', ''In Progress'', ''Mapped to Studies Pipeline'')),
      (''construction propositions'', (''04-Construction propositions'', ''In Progress'', ''Mapped to Studies Pipeline'')),
      (''construction offre'', (''04-Construction propositions'', ''In Progress'', ''Mapped to Studies Pipeline'')),
      (''negotiating'', (''05-N'' @ e_acute @ ''gociation'', ''In Progress'', ''Mapped to Studies Pipeline'')),
      (''negociation'', (''05-N'' @ e_acute @ ''gociation'', ''In Progress'', ''Mapped to Studies Pipeline''))]"

definition sales_active_table :: "(string \<times> stage_result) list" where
  "sales_active_table =
     [(''identification'', (''Identified'', ''In Progress'', ''Mapped to Sales Pipeline'')),
      (''qualified'', (''Qualified'', ''In Progress'', ''Mapped to Sales Pipeline'')),
      (''evaluation technique'', (''Design In'', ''In Progress'', ''Mapped to Sales Pipeline'')),
      (''construction propositions'', (''Negotiate'', ''In Progress'', ''Mapped to Sales Pipeline'')),
      (''construction offre'', (''Negotiate'', ''In Progress'', ''Mapped to Sales Pipeline'')),
      (''negotiating'', (''Design Win'', ''In Progress'', ''Mapped to Sales Pipeline'')),
      (''negociation'', (''Design Win'', ''In Progress'', ''Mapped to Sales Pipeline''))]"

text \<open>The loop over the items of the table: the first key found in the stage text wins.\<close>

fun find_stage :: "(string \<times> stage_result) list \<Rightarrow> string \<Rightarrow> stage_result option" where
  "find_stage [] stage_clean = None"
| "find_stage ((k, r) # rest) stage_clean =
     (if str_in k stage_clean then Some r else find_stage rest stage_clean)"

definition map_active_stage :: "string \<Rightarrow> string \<Rightarrow> stage_result" where
  "map_active_stage oppo_stage oppo_type =
     (let stage_clean = strip (lower oppo_stage);
          stage_mapping = (if oppo_type = ''Preetude'' then studies_active_table
                           else sales_active_table)
      in case find_stage stage_mapping stage_clean of
           Some r \<Rightarrow> r
         | None \<Rightarrow>
             (if oppo_type = ''Preetude''
              then (''01-Identification'', ''In Progress'', ''Default Studies Pipeline stage'')
              else (''Identified'', ''In Progress'', ''Default Sales Pipeline stage'')))"

definition transform_deal_stage :: "opportunity \<Rightarrow> stage_result" where
  "transform_deal_stage row =
     (let oppo_status = strip (str_cell (Oppo_Status row));
          oppo_stage = strip (str_cell (Oppo_Stage row));
          certainty = to_certainty (Oppo_Certainty row);
          oppo_type = strip (str_cell (Oppo_Type row))
      in if oppo_status \<in> set [''Abandonne'', ''Abandonnee''] \<and> float_le certainty 10
         then (''Closed Dead'', ''Lost'', ''Moved to Closed Dead (abandoned + low certainty)'')
         else if oppo_status = ''Won''
         then (''Closed Won'', ''Won'', ''Deal successfully closed'')
         else if oppo_status \<in> set [''Lost'', ''NoGo'']
         then (''Closed Lost'', ''Lost'', ''Deal closed as lost'')
         else if oppo_status = ''Sleap''
         then (if oppo_type = ''Preetude''
               then (''05-N'' @ e_acute @ ''gociation'', ''In Progress'', ''Deal on hold (Sleap)'')
               else (''Design Win'', ''In Progress'', ''Deal on hold (Sleap)''))
         else if oppo_status = ''In Progress'' \<or> oppo_status = ''''
         then map_active_stage oppo_stage oppo_type
         else (''Identified'', ''In Progress'', ''Default mapping applied''))"

text \<open>The stage and the deal status of a result.\<close>

definition result_stage :: "stage_result \<Rightarrow> string" where
  "result_stage r = fst r"

definition result_status :: "stage_result \<Rightarrow> string" where
  "result_status r = fst (snd r)"

definition closed_stages :: "string list" where
  "closed_stages = [''Closed Won'', ''Closed Lost'', ''Closed Dead'']"



section \<open>Stage mapping of the pipeline mapper\<close>

datatype PipelineType = STUDIES | SALES

definition pipeline_value :: "PipelineType \<Rightarrow> string" where
  "pipeline_value p = (case p of STUDIES \<Rightarrow> ''Studies Pipeline'' | SALES \<Rightarrow> ''Sales Pipeline'')"

datatype DealStage =
    STUDIES_IDENTIFICATION | STUDIES_QUALIFIED | STUDIES_EVALUATION | STUDIES_PROPOSITIONS
  | STUDIES_NEGOTIATION
  | SALES_IDENTIFIED | SALES_QUALIFIED | SALES_DESIGN_IN | SALES_NEGOTIATE | SALES_DESIGN_WIN
  | CLOSED_WON | CLOSED_LOST

definition stage_value :: "DealStage \<Rightarrow> string" where
  "stage_value s =
     (case s of
        STUDIES_IDENTIFICATION \<Rightarrow> ''01-Identification''
      | STUDIES_QUALIFIED \<Rightarrow> ''02-Qualifi'' @ e_acute @ ''e''
      | STUDIES_EVALUATION \<Rightarrow> ''03-Evaluation technique''
      | STUDIES_PROPOSITIONS \<Rightarrow> ''04-Construction propositions''
      | STUDIES_NEGOTIATION \<Rightarrow> ''05-N'' @ e_acute @ ''gociation''
      | SALES_IDENTIFIED \<Rightarrow> ''Identified''
      | SALES_QUALIFIED \<Rightarrow> ''Qualified''
      | SALES_DESIGN_IN \<Rightarrow> ''Design in''
      | SALES_NEGOTIATE \<Rightarrow> ''Negotiate''
      | SALES_DESIGN_WIN \<Rightarrow> ''Design Win''
      | CLOSED_WON \<Rightarrow> ''closedwon''
      | CLOSED_LOST \<Rightarrow> ''closedlost'')"

text \<open>
  A dict literal is an association list with distinct keys. \<open>k in d\<close>, \<open>d.get(k, v)\<close> and
  the subscript \<open>d[k]\<close>, which raises KeyError on a missing key.
\<close>

datatype py_error = KeyError | ValueError

definition dict_contains :: "('k \<times> 'v) list \<Rightarrow> 'k \<Rightarrow> bool" where
  "dict_contains d k = (k \<in> set (map fst d))"

definition dict_get :: "('k \<times> 'v) list \<Rightarrow> 'k \<Rightarrow> 'v \<Rightarrow> 'v" where
  "dict_get d k v = (case map_of d k of None \<Rightarrow> v | Some x \<Rightarrow> x)"

definition dict_subscript :: "('k \<times> 'v) list \<Rightarrow> 'k \<Rightarrow> py_error + 'v" where
  "dict_subscript d k = (case map_of d k of None \<Rightarrow> Inl KeyError | Some x \<Rightarrow> Inr x)"

definition pipeline_rules :: "(string option \<times> PipelineType) list" where
  "pipeline_rules =
     [(Some ''Preetude'', STUDIES), (Some ''FTK'', SALES), (None, SALES), (Some '''', SALES),
      (Some ''NULL'', SALES)]"

definition final_stage_mapping :: "(string \<times> DealStage option) list" where
  "final_stage_mapping =
     [(''Won'', Some CLOSED_WON), (''Lost'', Some CLOSED_LOST), (''NoGo'', Some CLOSED_LOST),
      (''Abandonne'', Some CLOSED_LOST), (''Sleap'', None)]"

definition studies_stage_mapping :: "(string \<times> DealStage) list" where
  "studies_stage_mapping =
     [(''Identification'', STUDIES_IDENTIFICATION), (''Qualified'', STUDIES_QUALIFIED),
      (''Qualifi'' @ e_acute @ ''e'', STUDIES_QUALIFIED),
      (''Evaluation technique'', STUDIES_EVALUATION),
      (''Construction propositions'', STUDIES_PROPOSITIONS),
      (''Negotiating'', STUDIES_NEGOTIATION),
      (''N'' @ e_acute @ ''gociation'', STUDIES_NEGOTIATION)]"

definition sales_stage_mapping :: "(string \<times> DealStage) list" where
  "sales_stage_mapping =
     [(''Identification'', SALES_IDENTIFIED), (''Qualified'', SALES_QUALIFIED),
      (''Qualifi'' @ e_acute @ ''e'', SALES_QUALIFIED),
      (''Evaluation technique'', SALES_DESIGN_IN),
      (''Construction propositions'', SALES_NEGOTIATE),
      (''Negotiating'', SALES_DESIGN_WIN),
      (''N'' @ e_acute @ ''gociation'', SALES_DESIGN_WIN)]"

definition determine_pipeline :: "string option \<Rightarrow> PipelineType" where
  "determine_pipeline oppo_type = dict_get pipeline_rules oppo_type SALES"

definition map_deal_stage :: "string \<Rightarrow> string \<Rightarrow> string \<Rightarrow> py_error + (string \<times> string)" where
  "map_deal_stage oppo_status oppo_stage oppo_type =
     (let pipeline = determine_pipeline (Some oppo_type);
          final = (if dict_contains final_stage_mapping oppo_status
                   then dict_subscript final_stage_mapping oppo_status
                   else Inr None)
      in case final of
           Inl e \<Rightarrow> Inl e
         | Inr (Some final_stage) \<Rightarrow> Inr (pipeline_value pipeline, stage_value final_stage)
         | Inr None \<Rightarrow>
             (let stage_mapping = (if pipeline = STUDIES then studies_stage_mapping
                                   else sales_stage_mapping)
              in case map_of stage_mapping oppo_stage of
                   Some mapped_stage \<Rightarrow> Inr (pipeline_value pipeline, stage_value mapped_stage)
                 | None \<Rightarrow>
                     (let default_stage = (if pipeline = STUDIES then STUDIES_IDENTIFICATION
                                           else SALES_IDENTIFIED)
                      in Inr (pipeline_value pipeline, stage_value default_stage))))"

definition calculate_mapping_confidence :: "string \<Rightarrow> string \<Rightarrow> string \<Rightarrow> real" where
  "calculate_mapping_confidence status stage oppo_type =
     (let confidence = 1.0;
          confidence = (if status = [] \<or> status = '''' then confidence - 0.2 else confidence);
          confidence = (if stage = [] \<or> stage = '''' then confidence - 0.2 else confidence);
          confidence = (if oppo_type = [] \<or> oppo_type = '''' then confidence - 0.1
                        else confidence);
          confidence = (if status \<in> set [''Won'', ''Lost''] then min 1.0 (confidence + 0.2)
                        else confidence)
      in max 0.1 confidence)"

text \<open>
  The confidence as the specification words it: start at 1.0, take 0.2 off for a missing
  status, 0.2 for a missing stage, 0.1 for a missing type, add 0.2 capped at 1.0 for the
  status Won or Lost, floor at 0.1.
\<close>

definition confidence_spec :: "string \<Rightarrow> string \<Rightarrow> string \<Rightarrow> real" where
  "confidence_spec status stage oppo_type =
     (let penalised = 1.0 - (if status = '''' then 0.2 else 0) - (if stage = '''' then 0.2 else 0)
                          - (if oppo_type = '''' then 0.1 else 0);
          boosted = (if status = ''Won'' \<or> status = ''Lost'' then min 1.0 (penalised + 0.2)
                     else penalised)
      in max 0.1 boosted)"

text \<open>
  One row of \<open>apply_pipeline_mapping\<close>: the three texts are stripped, and the texts nan,
  None and NULL become the empty text before the mapping.
\<close>

definition clean_field :: "text_cell \<Rightarrow> string" where
  "clean_field c =
     (let s = strip (str_cell c) in if s \<in> set [''nan'', ''None'', ''NULL''] then '''' else s)"

definition apply_pipeline_mapping_row :: "opportunity \<Rightarrow> py_error + (string \<times> string \<times> real)" where
  "apply_pipeline_mapping_row row =
     (let oppo_status = clean_field (Oppo_Status row);
          oppo_stage = clean_field (Oppo_Stage row);
          oppo_type = clean_field (Oppo_Type row)
      in case map_deal_stage oppo_status oppo_stage oppo_type of
           Inl e \<Rightarrow> Inl e
         | Inr (pipeline, stage) \<Rightarrow>
             Inr (pipeline, stage, calculate_mapping_confidence oppo_status oppo_stage oppo_type))"

section \<open>Site aggregation\<close>

text \<open>
  A company row. Its id is a whole number and is never missing, so the aggregation
  \<open>count\<close> of the ids of a group is the number of its rows.
\<close>

record company =
  Comp_CompanyId :: int
  Comp_Name :: text_cell
  Comp_Website :: text_cell

text \<open>
  A contact row. \<open>Pers_CompanyId\<close> is the column \<open>Comp_CompanyId\<close> of the contacts frame
  (a nullable reference to a company).
\<close>

record contact =
  Pers_PersonId :: int
  Pers_FirstName :: text_cell
  Pers_LastName :: text_cell
  Pers_EmailAddress :: text_cell
  Pers_CompanyId :: "int option"

text \<open>\<open>str.split()\<close>: the runs of characters between white space.\<close>

fun split_acc :: "string \<Rightarrow> string \<Rightarrow> string list" where
  "split_acc cur [] = (if cur = [] then [] else [rev cur])"
| "split_acc cur (c # cs) =
     (if is_space c then (if cur = [] then split_acc [] cs else rev cur # split_acc [] cs)
      else split_acc (c # cur) cs)"

definition split_ws :: "string \<Rightarrow> string list" where
  "split_ws s = split_acc [] s"

fun join :: "string \<Rightarrow> string list \<Rightarrow> string" where
  "join sep [] = []"
| "join sep [w] = w"
| "join sep (w # v # ws) = w @ sep @ join sep (v # ws)"

definition base_name_indicators :: "string list" where
  "base_name_indicators =
     [''grenoble'', ''paris'', ''lyon'', ''toulouse'', ''hq'', ''headquarters'',
      ''usa'', ''france'', ''germany'', ''uk'', ''switzerland'', ''italy'',
      ''north'', ''south'', ''east'', ''west'', ''corp'', ''inc'', ''ltd'', ''sa'']"

definition location_indicators :: "string list" where
  "location_indicators =
     [''grenoble'', ''paris'', ''lyon'', ''toulouse'', ''hq'', ''headquarters'',
      ''usa'', ''france'', ''germany'', ''uk'', ''switzerland'', ''italy'']"

definition extract_base_company_name :: "text_cell \<Rightarrow> string" where
  "extract_base_company_name company_name =
     (case company_name of
        None \<Rightarrow> ''''
      | Some n \<Rightarrow>
          if n = '''' then ''''
          else let name = strip n; words = split_ws name
               in if length words > 1
                  then (let last_word = lower (last words)
                        in if list_ex (\<lambda>indicator. str_in indicator last_word) base_name_indicators
                           then join '' '' (butlast words)
                           else name)
                  else name)"

definition extract_location :: "text_cell \<Rightarrow> string" where
  "extract_location company_name =
     (case company_name of
        None \<Rightarrow> ''HQ''
      | Some n \<Rightarrow>
          if n = '''' then ''HQ''
          else let name = strip n; words = split_ws name
               in if length words > 1
                  then (let last_word = last words
                        in if list_ex (\<lambda>indicator. str_in indicator (lower last_word))
                                location_indicators
                           then last_word
                           else ''HQ'')
                  else ''HQ'')"

text \<open>\<open>re.sub\<close> of a pattern anchored at the start: the prefix is dropped when it is there.\<close>

definition drop_prefix :: "string \<Rightarrow> string \<Rightarrow> string" where
  "drop_prefix p s = (if prefix p s then drop (length p) s else s)"

definition clean_domain :: "text_cell \<Rightarrow> string" where
  "clean_domain website =
     (case website of
        None \<Rightarrow> ''no-domain''
      | Some w \<Rightarrow>
          if w \<in> set ['''', ''NULL'', ''NaN''] then ''no-domain''
          else let domain = lower (strip w);
                   domain = (if prefix ''https://'' domain then drop_prefix ''https://'' domain
                             else drop_prefix ''http://'' domain);
                   domain = drop_prefix ''www.'' domain;
                   domain = takeWhile (\<lambda>c. c \<noteq> CHR ''/'') domain;
                   domain = takeWhile (\<lambda>c. c \<noteq> CHR '':'') domain
               in if domain = [] then ''no-domain'' else domain)"

text \<open>
  The columns \<open>base_company_name\<close> and \<open>domain_clean\<close> that \<open>_analyze_companies\<close> adds to
  every row are the two components of the row's clustering key.
\<close>

definition company_key :: "company \<Rightarrow> string \<times> string" where
  "company_key c = (extract_base_company_name (Comp_Name c), clean_domain (Comp_Website c))"

text \<open>The aggregation \<open>first\<close>: the first value of the group that is not missing.\<close>

definition first_valid :: "text_cell list \<Rightarrow> text_cell" where
  "first_valid xs = (case filter (\<lambda>x. x \<noteq> None) xs of [] \<Rightarrow> None | x # _ \<Rightarrow> x)"

text \<open>\<open>Series.max\<close> of the company ids; it is only called on a frame with a row.\<close>

definition series_max :: "int list \<Rightarrow> int" where
  "series_max xs = (case xs of [] \<Rightarrow> 0 | x # rest \<Rightarrow> fold max rest x)"

record domain_group =
  group_base_company_name :: string
  group_domain_clean :: string
  site_count :: nat
  parent_website :: text_cell
  new_parent_id :: int

text \<open>
  \<open>groupby\<close> on the two key columns lists each key once, in ascending order of the pair;
  the count of a key is the number of rows that carry it. The parent ids are the
  \<open>range\<close> that starts after the largest company id, in the order of the groups.
\<close>

definition identify_domain_groups :: "company list \<Rightarrow> domain_group list" where
  "identify_domain_groups companies_analysis =
     (let keys = map company_key companies_analysis;
          groups = sort (remdups keys);
          multi_site_groups = filter (\<lambda>k. count_list keys k > 1) groups
      in if length multi_site_groups = 0 then []
         else let max_company_id = series_max (map Comp_CompanyId companies_analysis)
              in map (\<lambda>(k, new_id).
                        \<lparr>group_base_company_name = fst k,
                         group_domain_clean = snd k,
                         site_count = count_list keys k,
                         parent_website =
                           first_valid (map Comp_Website
                             (filter (\<lambda>c. company_key c = k) companies_analysis)),
                         new_parent_id = new_id\<rparr>)
                     (zip multi_site_groups
                        (map (\<lambda>i. max_company_id + 1 + int i)
                           [0..<length multi_site_groups])))"

text \<open>
  The contact lookup: one entry per company id that a contact names, with the number of
  its contacts. The left merge with it and \<open>fillna(0)\<close> give every company its count.
\<close>

definition contact_lookup :: "contact list \<Rightarrow> (int \<times> nat) list" where
  "contact_lookup contacts_df =
     (let ids = List.map_filter Pers_CompanyId contacts_df
      in map (\<lambda>i. (i, count_list ids i)) (sort (remdups ids)))"

definition merged_contact_count :: "contact list \<Rightarrow> company \<Rightarrow> nat" where
  "merged_contact_count contacts_df c = dict_get (contact_lookup contacts_df) (Comp_CompanyId c) 0"

text \<open>The left merge with the groups on the two key columns: the parent id of a row, if any.\<close>

definition merged_parent_id :: "domain_group list \<Rightarrow> company \<Rightarrow> int option" where
  "merged_parent_id domain_groups c =
     map_of (map (\<lambda>g. ((group_base_company_name g, group_domain_clean g), new_parent_id g))
               domain_groups)
            (company_key c)"

text \<open>\<open>groupby(...).cumcount()\<close>: how many earlier rows carry the key of the row.\<close>

fun cumcount :: "'k list \<Rightarrow> 'k list \<Rightarrow> nat list" where
  "cumcount seen [] = []"
| "cumcount seen (k # ks) = count_list seen k # cumcount (seen @ [k]) ks"

text \<open>
  A row of the result. The columns of contact names and e-mails are left out: no other
  column reads them.
\<close>

record site_record =
  company_id :: int
  parent_company_id :: "int option"
  company_name :: text_cell
  base_company_name :: string
  location_extracted :: string
  domain_clean :: string
  company_website :: text_cell
  record_type :: string
  has_multiple_sites :: bool
  site_order :: nat
  contact_count :: nat
  source_type :: string
  processed_date :: string

text \<open>The Site record of one company; \<open>n\<close> is the \<open>cumcount\<close> of its row.\<close>

definition site_row ::
  "string \<Rightarrow> domain_group list \<Rightarrow> contact list \<Rightarrow> company \<Rightarrow> nat \<Rightarrow> site_record" where
  "site_row now domain_groups contacts_df c n =
     \<lparr>company_id = Comp_CompanyId c,
      parent_company_id =
        Some (case merged_parent_id domain_groups c of
                None \<Rightarrow> Comp_CompanyId c | Some p \<Rightarrow> p),
      company_name = Comp_Name c,
      base_company_name = fst (company_key c),
      location_extracted = extract_location (Comp_Name c),
      domain_clean = snd (company_key c),
      company_website = Comp_Website c,
      record_type =
        (if merged_parent_id domain_groups c \<noteq> None then ''Site'' else ''Standalone''),
      has_multiple_sites = (merged_parent_id domain_groups c \<noteq> None),
      site_order = n + 1,
      contact_count = merged_contact_count contacts_df c,
      source_type = ''Original'',
      processed_date = now\<rparr>"

definition create_site_records ::
  "string \<Rightarrow> domain_group list \<Rightarrow> contact list \<Rightarrow> company list \<Rightarrow> site_record list" where
  "create_site_records now domain_groups contacts_df companies =
     map (\<lambda>(c, n). site_row now domain_groups contacts_df c n)
       (zip companies (cumcount [] (map company_key companies)))"

definition create_parent_records ::
  "string \<Rightarrow> domain_group list \<Rightarrow> contact list \<Rightarrow> company list \<Rightarrow> site_record list" where
  "create_parent_records now domain_groups contacts_df companies =
     map (\<lambda>g.
            \<lparr>company_id = new_parent_id g,
             parent_company_id = None,
             company_name = Some (group_base_company_name g),
             base_company_name = group_base_company_name g,
             location_extracted = ''HQ'',
             domain_clean = group_domain_clean g,
             company_website = parent_website g,
             record_type = ''Parent_Aggregator'',
             has_multiple_sites = True,
             site_order = 0,
             contact_count =
               sum_list (map (merged_contact_count contacts_df)
                 (filter (\<lambda>c. fst (company_key c) = group_base_company_name g \<and>
                               snd (company_key c) = group_domain_clean g) companies)),
             source_type = ''Generated'',
             processed_date = now\<rparr>)
         domain_groups"

text \<open>
  The whole aggregation; \<open>now\<close> is the text of the clock at the time of the run, the only
  input that is not one of the two frames.
\<close>

definition process_site_aggregation ::
  "string \<Rightarrow> company list \<Rightarrow> contact list \<Rightarrow> site_record list" where
  "process_site_aggregation now companies_df contacts_df =
     (let domain_groups = identify_domain_groups companies_df
      in create_site_records now domain_groups contacts_df companies_df
         @ create_parent_records now domain_groups contacts_df companies_df)"

section \<open>Association resolution\<close>

text \<open>
  A communication row; the three references are the columns \<open>Oppo_OpportunityId\<close>,
  \<open>Pers_PersonId\<close> and \<open>Comp_CompanyId\<close> of the communications frame, \<open>None\<close> when missing.
\<close>

record communication =
  Comm_CommunicationId :: int
  Comm_OpportunityId :: "int option"
  Comm_PersonId :: "int option"
  Comm_CompanyId :: "int option"

text \<open>
  \<open>set_index(id)[name].to_dict()\<close>: a later row with the same id overrides an earlier one.
\<close>

definition company_lookup :: "company list \<Rightarrow> (int \<rightharpoonup> text_cell)" where
  "company_lookup companies_df =
     map_of (rev (map (\<lambda>c. (Comp_CompanyId c, Comp_Name c)) companies_df))"

text \<open>
  \<open>set_index(id)[columns].to_dict('index')\<close> raises ValueError unless the ids are distinct.
\<close>

definition to_dict_index :: "('r \<Rightarrow> int) \<Rightarrow> 'r list \<Rightarrow> py_error + (int \<rightharpoonup> 'r)" where
  "to_dict_index ident rows =
     (if distinct (map ident rows) then Inr (map_of (map (\<lambda>r. (ident r, r)) rows))
      else Inl ValueError)"

text \<open>
  The status of one target: SUCCESS when the reference is there and is a key of the lookup,
  the miss status of the target otherwise.
\<close>

definition association_status_of :: "string \<Rightarrow> (int \<rightharpoonup> 'v) \<Rightarrow> int option \<Rightarrow> string" where
  "association_status_of miss lookup x =
     (case x of
        None \<Rightarrow> miss
      | Some i \<Rightarrow> if lookup i \<noteq> None then ''SUCCESS'' else miss)"

record comm_association =
  communication_id :: int
  legacy_opportunity_id :: "int option"
  legacy_person_id :: "int option"
  legacy_company_id :: "int option"
  company_association_status :: string
  contact_association_status :: string
  hubspot_company_id :: string
  hubspot_contact_id :: string
  hubspot_deal_id :: string

text \<open>
  \<open>process_communications_with_associations\<close> of the associations processor. An
  exception (here: the contact ids are not distinct) gives the empty frame.
\<close>

definition process_communications_with_associations ::
  "communication list \<Rightarrow> company list \<Rightarrow> contact list \<Rightarrow> comm_association list" where
  "process_communications_with_associations communications_df companies_df contacts_df =
     (case to_dict_index Pers_PersonId contacts_df of
        Inl e \<Rightarrow> []
      | Inr contact_index \<Rightarrow>
          map (\<lambda>m.
                 \<lparr>communication_id = Comm_CommunicationId m,
                  legacy_opportunity_id = Comm_OpportunityId m,
                  legacy_person_id = Comm_PersonId m,
                  legacy_company_id = Comm_CompanyId m,
                  company_association_status =
                    association_status_of ''NO_COMPANY_FOUND'' (company_lookup companies_df)
                      (Comm_CompanyId m),
                  contact_association_status =
                    association_status_of ''NO_CONTACT_FOUND'' contact_index (Comm_PersonId m),
                  hubspot_company_id = ''TBD'',
                  hubspot_contact_id = ''TBD'',
                  hubspot_deal_id = ''TBD''\<rparr>)
              communications_df)"

text \<open>
  \<open>create_communication_associations\<close> of the business transformation processor, which
  also resolves the transformed deal; \<open>deal_ids\<close> is the column \<open>record_id\<close> of the
  transformed deals. The three statuses of a row are returned in the order deal, company,
  contact.
\<close>

definition create_communication_associations ::
  "communication list \<Rightarrow> int list \<Rightarrow> company list \<Rightarrow> contact list
     \<Rightarrow> (int \<times> string \<times> string \<times> string) list" where
  "create_communication_associations communications_df deal_ids companies_df contacts_df =
     (case to_dict_index id deal_ids of
        Inl e \<Rightarrow> []
      | Inr deal_lookup \<Rightarrow>
          (case to_dict_index Pers_PersonId contacts_df of
             Inl e \<Rightarrow> []
           | Inr contact_index \<Rightarrow>
               map (\<lambda>m.
                      (Comm_CommunicationId m,
                       association_status_of ''NO_DEAL_FOUND'' deal_lookup (Comm_OpportunityId m),
                       association_status_of ''NO_COMPANY_FOUND'' (company_lookup companies_df)
                         (Comm_CompanyId m),
                       association_status_of ''NO_CONTACT_FOUND'' contact_index
                         (Comm_PersonId m)))
                   communications_df))"

subsection \<open>Social networks\<close>

record social_link =
  sone_networklink :: text_cell
  Related_TableID :: "int option"
  Related_RecordID :: "int option"

text \<open>
  A row of the result. The resolved entity name and the two legacy id columns are left
  out: no other column reads them, and every kept row gets one.
\<close>

record social_association =
  network_link :: text_cell
  related_table_id :: "int option"
  related_record_id :: "int option"
  entity_type :: string
  association_status :: string
  hubspot_property_target :: "string option"

definition check_association_status ::
  "social_link \<Rightarrow> (int \<rightharpoonup> 'a) \<Rightarrow> (int \<rightharpoonup> 'b) \<Rightarrow> string" where
  "check_association_status row comp_lookup cont_lookup =
     (if Related_TableID row = Some 5
      then (case Related_RecordID row of
              None \<Rightarrow> ''NO_COMPANY_FOUND''
            | Some i \<Rightarrow> if comp_lookup i \<noteq> None then ''SUCCESS'' else ''NO_COMPANY_FOUND'')
      else if Related_TableID row = Some 13
      then (case Related_RecordID row of
              None \<Rightarrow> ''NO_CONTACT_FOUND''
            | Some i \<Rightarrow> if cont_lookup i \<noteq> None then ''SUCCESS'' else ''NO_CONTACT_FOUND'')
      else ''UNKNOWN_ENTITY_TYPE'')"

text \<open>The target property; \<open>None\<close> is the Python None of a branch that returns nothing.\<close>

definition determine_hubspot_property :: "social_link \<Rightarrow> string option" where
  "determine_hubspot_property row =
     (let link = lower (str_cell (sone_networklink row));
          table_id = Related_TableID row
      in if str_in ''in/'' link \<or> str_in ''linkedin.com'' link
         then (if table_id = Some 13 then Some ''linkedin_bio''
               else if table_id = Some 5 then Some ''linkedin_company_page''
               else None)
         else if str_in ''company/'' link \<or>
                 list_ex (\<lambda>domain. str_in domain link) [''.com'', ''.org'', ''.net'', ''.fr'']
         then Some ''website''
         else if str_in ''twitter.com'' link \<or> str_in ''x.com'' link
         then Some ''twitterhandle''
         else if str_in ''facebook.com'' link
         then (if table_id = Some 5 then Some ''facebook_company_page'' else Some ''hs_facebookid'')
         else Some ''website'')"

definition process_social_networks_with_associations ::
  "social_link list \<Rightarrow> company list \<Rightarrow> contact list \<Rightarrow> social_association list" where
  "process_social_networks_with_associations social_df companies_df contacts_df =
     (let sn_df = filter (\<lambda>r. sone_networklink r \<noteq> Some ''#AUTO#'') social_df
      in case to_dict_index Pers_PersonId contacts_df of
           Inl e \<Rightarrow> []
         | Inr contact_index \<Rightarrow>
             map (\<lambda>r.
                    \<lparr>network_link = sone_networklink r,
                     related_table_id = Related_TableID r,
                     related_record_id = Related_RecordID r,
                     entity_type =
                       (if Related_TableID r = Some 5 then ''Company''
                        else if Related_TableID r = Some 13 then ''Person'' else ''Unknown''),
                     association_status =
                       check_association_status r (company_lookup companies_df) contact_index,
                     hubspot_property_target = determine_hubspot_property r\<rparr>)
                 sn_df)"

section \<open>Margin and return on investment\<close>

text \<open>\<open>pd.to_numeric(errors='coerce').fillna(0)\<close> on one cell.\<close>

definition to_numeric_fillna :: "num_cell \<Rightarrow> real" where
  "to_numeric_fillna c = (case c of Numeric r \<Rightarrow> r | NonNumeric \<Rightarrow> 0)"

definition calculate_net_amount :: "opportunity \<Rightarrow> real" where
  "calculate_net_amount row =
     to_numeric_fillna (Oppo_Forecast row) - to_numeric_fillna (oppo_cout row)"

record roi_row =
  net_amount :: real
  margin_percentage :: real
  roi_percentage :: real

text \<open>
  One row of \<open>calculate_roi_metrics\<close>. \<open>existing\<close> is the value of the column \<open>net_amount\<close>
  when the frame already has one. Each percentage starts at 0.0 and is assigned under
  its mask only.
\<close>

definition roi_metrics_row :: "real option \<Rightarrow> opportunity \<Rightarrow> roi_row" where
  "roi_metrics_row existing row =
     (let net = (case existing of None \<Rightarrow> calculate_net_amount row | Some n \<Rightarrow> n);
          forecast = to_numeric_fillna (Oppo_Forecast row);
          cout = to_numeric_fillna (oppo_cout row)
      in \<lparr>net_amount = net,
          margin_percentage = (if forecast > 0 then (net / forecast) * 100 else 0.0),
          roi_percentage = (if cout > 0 then (net / cout) * 100 else 0.0)\<rparr>)"

text \<open>
  The frame: \<open>net_amount_column\<close> is the column \<open>net_amount\<close> of the input (one value per
  row) when it is there.
\<close>

definition calculate_roi_metrics :: "real list option \<Rightarrow> opportunity list \<Rightarrow> roi_row list" where
  "calculate_roi_metrics net_amount_column df =
     (case net_amount_column of
        None \<Rightarrow> map (roi_metrics_row None) df
      | Some col \<Rightarrow> map (\<lambda>(n, row). roi_metrics_row (Some n) row) (zip col df))"

section \<open>Example inputs\<close>

text \<open>An opportunity row with the given status, stage, certainty and type.\<close>

definition example_row :: "string \<Rightarrow> string \<Rightarrow> real \<Rightarrow> string \<Rightarrow> opportunity" where
  "example_row status stage certainty oppo_type =
     \<lparr>Oppo_Status = Some status, Oppo_Stage = Some stage, Oppo_Certainty = CNumber certainty,
      Oppo_Type = Some oppo_type, Oppo_Forecast = Numeric 1000, oppo_cout = Numeric 200\<rparr>"


text \<open>
  Three companies, two of them sites of one company, with three contacts; a communication
  that names a known company and an unknown contact; three social links, the first one
  the placeholder.
\<close>

definition example_companies :: "company list" where
  "example_companies =
     [\<lparr>Comp_CompanyId = 1, Comp_Name = Some ''Acme Grenoble'', Comp_Website = Some ''a.com/fr''\<rparr>,
      \<lparr>Comp_CompanyId = 7, Comp_Name = Some ''Acme Paris'', Comp_Website = Some ''a.com/en''\<rparr>,
      \<lparr>Comp_CompanyId = 3, Comp_Name = Some ''Beta Corp'', Comp_Website = Some ''beta.io''\<rparr>]"

definition example_contacts :: "contact list" where
  "example_contacts =
     [\<lparr>Pers_PersonId = 1, Pers_FirstName = Some ''Ann'', Pers_LastName = Some ''Roy'',
       Pers_EmailAddress = Some ''ann@a.com'', Pers_CompanyId = Some 1\<rparr>,
      \<lparr>Pers_PersonId = 2, Pers_FirstName = Some ''Bob'', Pers_LastName = Some ''Lee'',
       Pers_EmailAddress = None, Pers_CompanyId = Some 7\<rparr>,
      \<lparr>Pers_PersonId = 3, Pers_FirstName = Some ''Cy'', Pers_LastName = Some ''Kim'',
       Pers_EmailAddress = None, Pers_CompanyId = Some 7\<rparr>]"

definition example_communications :: "communication list" where
  "example_communications =
     [\<lparr>Comm_CommunicationId = 100, Comm_OpportunityId = Some 50, Comm_PersonId = Some 99,
       Comm_CompanyId = Some 1\<rparr>]"

definition example_social :: "social_link list" where
  "example_social =
     [\<lparr>sone_networklink = Some ''#AUTO#'', Related_TableID = Some 5, Related_RecordID = Some 1\<rparr>,
      \<lparr>sone_networklink = Some ''https://www.linkedin.com/company/acme'', Related_TableID = Some 5,
       Related_RecordID = Some 1\<rparr>,
      \<lparr>sone_networklink = Some ''linkedin.com/in/bob'', Related_TableID = Some 13,
       Related_RecordID = Some 2\<rparr>]"

section \<open>Reading the result of the site aggregation\<close>



definition parent_records :: "site_record list \<Rightarrow> site_record list" where
  "parent_records result = filter (\<lambda>r. record_type r = ''Parent_Aggregator'') result"



section \<open>Properties of the string functions\<close>







section \<open>Stage mapping\<close>

lemma determine_pipeline_bt_studies:
  "determine_pipeline_bt t = ''Studies Pipeline'' \<longleftrightarrow> strip (str_cell t) = ''Preetude''"
  by (cases t) (auto simp: determine_pipeline_bt_def str_cell_def strip_def is_space_def)

lemma example_row_sel:
  "strip (str_cell (Oppo_Status (example_row st sg c ty))) = strip st"
  "strip (str_cell (Oppo_Stage (example_row st sg c ty))) = strip sg"
  "strip (str_cell (Oppo_Type (example_row st sg c ty))) = strip ty"
  "to_certainty (Oppo_Certainty (example_row st sg c ty)) = Some c"
  by (simp_all add: example_row_def str_cell_def to_certainty_def)

lemma strip_literals:
  "strip ''Won'' = ''Won''" "strip ''Lost'' = ''Lost''" "strip ''NoGo'' = ''NoGo''"
  "strip ''Abandonne'' = ''Abandonne''" "strip ''Abandonnee'' = ''Abandonnee''"
  "strip ''Sleap'' = ''Sleap''" "strip ''In Progress'' = ''In Progress''"
  "strip ''Open'' = ''Open''" "strip ''Preetude'' = ''Preetude''" "strip ''FTK'' = ''FTK''"
  "strip ''xyz'' = ''xyz''" "strip ''QUALIFIED lead'' = ''QUALIFIED lead''"
  by (simp_all add: strip_def is_space_def)

text \<open>
  C1. The terminal statuses are checked before anything else: the status Won gives the
  stage Closed Won; Lost and NoGo give Closed Lost; Abandonne and Abandonnee with a
  certainty of at most 10 give Closed Dead; with a certainty above 10 they give the
  stage Identified with the deal status In Progress, which is not a closed stage.
\<close>

theorem transform_deal_stage_terminal:
  "(strip (str_cell (Oppo_Status row)) = ''Won'' \<longrightarrow>
      result_stage (transform_deal_stage row) = ''Closed Won'') \<and>
   (strip (str_cell (Oppo_Status row)) \<in> {''Lost'', ''NoGo''} \<longrightarrow>
      result_stage (transform_deal_stage row) = ''Closed Lost'') \<and>
   (strip (str_cell (Oppo_Status row)) \<in> {''Abandonne'', ''Abandonnee''} \<and>
    to_certainty (Oppo_Certainty row) = Some r \<and> r \<le> 10 \<longrightarrow>
      result_stage (transform_deal_stage row) = ''Closed Dead'') \<and>
   (strip (str_cell (Oppo_Status row)) \<in> {''Abandonne'', ''Abandonnee''} \<and>
    to_certainty (Oppo_Certainty row) = Some r \<and> r > 10 \<longrightarrow>
      result_stage (transform_deal_stage row) = ''Identified'' \<and>
      result_stage (transform_deal_stage row) \<notin> set closed_stages \<and>
      result_status (transform_deal_stage row) = ''In Progress'')"
  by (auto simp: transform_deal_stage_def result_stage_def result_status_def Let_def
      float_le_def closed_stages_def)

theorem transform_deal_stage_terminal_witness:
  "result_stage (transform_deal_stage (example_row ''Won'' ''Qualified'' 80 ''FTK'')) = ''Closed Won'' \<and>
   result_stage (transform_deal_stage (example_row ''NoGo'' ''Qualified'' 80 ''FTK'')) = ''Closed Lost'' \<and>
   result_stage (transform_deal_stage (example_row ''Abandonne'' ''Qualified'' 5 ''FTK'')) = ''Closed Dead'' \<and>
   result_stage (transform_deal_stage (example_row ''Abandonne'' ''Qualified'' 50 ''FTK'')) = ''Identified'' \<and>
   result_status (transform_deal_stage (example_row ''Abandonne'' ''Qualified'' 50 ''FTK'')) = ''In Progress''"
  using transform_deal_stage_terminal [of "example_row ''Won'' ''Qualified'' 80 ''FTK''" 80]
    transform_deal_stage_terminal [of "example_row ''NoGo'' ''Qualified'' 80 ''FTK''" 80]
    transform_deal_stage_terminal [of "example_row ''Abandonne'' ''Qualified'' 5 ''FTK''" 5]
    transform_deal_stage_terminal [of "example_row ''Abandonne'' ''Qualified'' 50 ''FTK''" 50]
  by (simp add: example_row_sel strip_literals)

text \<open>
  C2. A row with the status Sleap gets the hold stage of its pipeline, 05-Negociation
  (with its accent) for the Studies pipeline and Design Win for the Sales pipeline, with
  the deal status In Progress; the stage is not a closed one, and the stage text of the
  row has no part in the result.
\<close>

theorem sleap_hold_stage:
  assumes "strip (str_cell (Oppo_Status row)) = ''Sleap''"
  shows "transform_deal_stage row =
           (if determine_pipeline_bt (Oppo_Type row) = ''Studies Pipeline''
            then (''05-N'' @ e_acute @ ''gociation'', ''In Progress'', ''Deal on hold (Sleap)'')
            else (''Design Win'', ''In Progress'', ''Deal on hold (Sleap)''))
         \<and> result_status (transform_deal_stage row) = ''In Progress''
         \<and> result_stage (transform_deal_stage row) \<notin> set closed_stages
         \<and> transform_deal_stage (row\<lparr>Oppo_Stage := stage_text\<rparr>) = transform_deal_stage row"
  using assms
  by (simp add: transform_deal_stage_def result_stage_def result_status_def Let_def
      float_le_def closed_stages_def determine_pipeline_bt_studies e_acute_def)

theorem sleap_hold_stage_witness:
  "strip (str_cell (Oppo_Status (example_row ''Sleap'' ''Qualified'' 50 ''Preetude''))) = ''Sleap'' \<and>
   result_stage (transform_deal_stage (example_row ''Sleap'' ''Qualified'' 50 ''Preetude''))
     = ''05-N'' @ e_acute @ ''gociation'' \<and>
   result_stage (transform_deal_stage (example_row ''Sleap'' ''Qualified'' 50 ''FTK'')) = ''Design Win''"
  using sleap_hold_stage [of "example_row ''Sleap'' ''Qualified'' 50 ''Preetude''"]
    sleap_hold_stage [of "example_row ''Sleap'' ''Qualified'' 50 ''FTK''"]
  by (simp add: example_row_sel strip_literals determine_pipeline_bt_studies result_stage_def)

lemma map_deal_stage_total: "\<exists>p s. map_deal_stage st sg ty = Inr (p, s)"
  by (auto simp: map_deal_stage_def Let_def dict_contains_def dict_subscript_def
      final_stage_mapping_def split: option.splits)

lemma confidence_eq: "calculate_mapping_confidence st sg ty = confidence_spec st sg ty"
proof -
  have boost: "(st \<in> set [''Won'', ''Lost'']) = (st = ''Won'' \<or> st = ''Lost'')"
    by auto
  show ?thesis
    unfolding calculate_mapping_confidence_def confidence_spec_def Let_def boost
    by (cases "st = []"; cases "sg = []"; cases "ty = []"; simp)
qed

lemma confidence_bounds:
  "0.1 \<le> calculate_mapping_confidence st sg ty \<and> calculate_mapping_confidence st sg ty \<le> 1.0"
  by (simp add: calculate_mapping_confidence_def Let_def)

text \<open>
  C3. For every status, stage and type the mapping of the pipeline mapper returns a
  pipeline and a stage (the subscript of the final-stage table never raises), the
  confidence lies between 0.1 and 1.0, and it is the value the specification words:
  1.0, less 0.2 for an empty status, less 0.2 for an empty stage, less 0.1 for an empty
  type, plus 0.2 capped at 1.0 for the status Won or Lost, floored at 0.1. The same holds
  for a whole row of \<open>apply_pipeline_mapping\<close>.
\<close>

theorem mapping_total_confidence_range:
  "(\<exists>p s. map_deal_stage st sg ty = Inr (p, s)) \<and>
   0.1 \<le> calculate_mapping_confidence st sg ty \<and>
   calculate_mapping_confidence st sg ty \<le> 1.0 \<and>
   calculate_mapping_confidence st sg ty = confidence_spec st sg ty \<and>
   (\<exists>p s c. apply_pipeline_mapping_row row = Inr (p, s, c) \<and> 0.1 \<le> c \<and> c \<le> 1.0)"
proof -
  obtain p s where ps: "map_deal_stage (clean_field (Oppo_Status row))
      (clean_field (Oppo_Stage row)) (clean_field (Oppo_Type row)) = Inr (p, s)"
    using map_deal_stage_total by blast
  have row: "\<exists>p s c. apply_pipeline_mapping_row row = Inr (p, s, c) \<and> 0.1 \<le> c \<and> c \<le> 1.0"
    using confidence_bounds by (simp add: apply_pipeline_mapping_row_def Let_def ps)
  show ?thesis
    using map_deal_stage_total confidence_bounds confidence_eq row by blast
qed

section \<open>Active stages\<close>















section \<open>Association resolution\<close>

lemma company_lookup_known:
  "company_lookup companies_df i \<noteq> None \<longleftrightarrow> i \<in> Comp_CompanyId ` set companies_df"
proof -
  have "dom (company_lookup companies_df) = Comp_CompanyId ` set companies_df"
    unfolding company_lookup_def by (simp add: dom_map_of_conv_image_fst image_image)
  then show ?thesis by (auto simp: dom_def)
qed

lemma to_dict_index_known:
  assumes "to_dict_index ident rows = Inr idx"
  shows "idx i \<noteq> None \<longleftrightarrow> i \<in> ident ` set rows"
proof -
  from assms have "idx = map_of (map (\<lambda>r. (ident r, r)) rows)"
    by (simp add: to_dict_index_def split: if_splits)
  then have "dom idx = ident ` set rows"
    by (simp add: dom_map_of_conv_image_fst image_image)
  then show ?thesis by (auto simp: dom_def)
qed

lemma to_dict_index_distinct:
  "distinct (map ident rows) \<Longrightarrow> \<exists>idx. to_dict_index ident rows = Inr idx"
  by (simp add: to_dict_index_def)

lemma association_status_of_known:
  "(\<And>i. lookup i \<noteq> None \<longleftrightarrow> i \<in> S) \<Longrightarrow>
   association_status_of miss lookup x = (if x \<in> Some ` S then ''SUCCESS'' else miss)"
  by (cases x) (auto simp: association_status_of_def)

text \<open>
  C8, as the claim states it, fails on the name of the miss status: the communication of
  the example names a known company and an unknown contact, and the contact status is
  NO_CONTACT_FOUND, not NOT_FOUND.
\<close>

theorem communication_status_counterexample:
  "map company_association_status
     (process_communications_with_associations example_communications example_companies
        example_contacts) = [''SUCCESS''] \<and>
   map contact_association_status
     (process_communications_with_associations example_communications example_companies
        example_contacts) = [''NO_CONTACT_FOUND''] \<and>
   ''NO_CONTACT_FOUND'' \<noteq> ''NOT_FOUND'' \<and>
   create_communication_associations example_communications [50] example_companies
     example_contacts = [(100, ''SUCCESS'', ''SUCCESS'', ''NO_CONTACT_FOUND'')]"
  by (simp add: process_communications_with_associations_def example_communications_def
      example_companies_def example_contacts_def to_dict_index_def association_status_of_def
      company_lookup_def create_communication_associations_def)

text \<open>
  C8, amended. With distinct contact ids (and distinct deal ids) every communication row
  gets a record and nothing is raised on a miss. The company status of a row is SUCCESS
  when its company id is the id of a company and NO_COMPANY_FOUND otherwise; the contact
  status is SUCCESS when its person id is the id of a contact and NO_CONTACT_FOUND
  otherwise; the deal status is SUCCESS or NO_DEAL_FOUND in the same way. Each status
  reads its own reference and its own lookup only.
\<close>

theorem communication_statuses:
  assumes "distinct (map Pers_PersonId contacts_df)" and "distinct deal_ids"
  shows "length (process_communications_with_associations communications_df companies_df
                   contacts_df) = length communications_df
     \<and> map company_association_status
         (process_communications_with_associations communications_df companies_df contacts_df)
       = map (\<lambda>m. if Comm_CompanyId m \<in> Some ` Comp_CompanyId ` set companies_df
                   then ''SUCCESS'' else ''NO_COMPANY_FOUND'') communications_df
     \<and> map contact_association_status
         (process_communications_with_associations communications_df companies_df contacts_df)
       = map (\<lambda>m. if Comm_PersonId m \<in> Some ` Pers_PersonId ` set contacts_df
                   then ''SUCCESS'' else ''NO_CONTACT_FOUND'') communications_df
     \<and> create_communication_associations communications_df deal_ids companies_df contacts_df
       = map (\<lambda>m. (Comm_CommunicationId m,
                    if Comm_OpportunityId m \<in> Some ` set deal_ids
                    then ''SUCCESS'' else ''NO_DEAL_FOUND'',
                    if Comm_CompanyId m \<in> Some ` Comp_CompanyId ` set companies_df
                    then ''SUCCESS'' else ''NO_COMPANY_FOUND'',
                    if Comm_PersonId m \<in> Some ` Pers_PersonId ` set contacts_df
                    then ''SUCCESS'' else ''NO_CONTACT_FOUND'')) communications_df"
proof -
  obtain cidx where cidx: "to_dict_index Pers_PersonId contacts_df = Inr cidx"
    using assms(1) to_dict_index_distinct by blast
  obtain didx where didx: "to_dict_index id deal_ids = Inr didx"
    using assms(2) to_dict_index_distinct[of id deal_ids] by auto
  have comp: "\<And>x. association_status_of ''NO_COMPANY_FOUND'' (company_lookup companies_df) x =
      (if x \<in> Some ` Comp_CompanyId ` set companies_df then ''SUCCESS'' else ''NO_COMPANY_FOUND'')"
    by (rule association_status_of_known) (rule company_lookup_known)
  have cont: "\<And>x. association_status_of ''NO_CONTACT_FOUND'' cidx x =
      (if x \<in> Some ` Pers_PersonId ` set contacts_df then ''SUCCESS'' else ''NO_CONTACT_FOUND'')"
    by (rule association_status_of_known) (rule to_dict_index_known[OF cidx])
  have deal: "\<And>x. association_status_of ''NO_DEAL_FOUND'' didx x =
      (if x \<in> Some ` set deal_ids then ''SUCCESS'' else ''NO_DEAL_FOUND'')"
    using association_status_of_known[of didx "set deal_ids" "''NO_DEAL_FOUND''"]
      to_dict_index_known[OF didx] by simp
  show ?thesis
    by (simp add: process_communications_with_associations_def
        create_communication_associations_def cidx didx comp cont deal comp_def)
qed

theorem communication_statuses_witness:
  "distinct (map Pers_PersonId example_contacts) \<and> distinct [50 :: int] \<and>
   map company_association_status
     (process_communications_with_associations example_communications example_companies
        example_contacts) = [''SUCCESS''] \<and>
   map contact_association_status
     (process_communications_with_associations example_communications example_companies
        example_contacts) = [''NO_CONTACT_FOUND'']"
proof -
  have d: "distinct (map Pers_PersonId example_contacts)" "distinct [50 :: int]"
    by (simp_all add: example_contacts_def)
  show ?thesis
    using communication_statuses [OF d, of example_communications example_companies] d
    by (simp add: example_communications_def example_companies_def example_contacts_def)
qed

section \<open>Margin and return on investment\<close>

text \<open>
  C9. For a row with a numeric forecast and a numeric cost, the margin percentage is
  the net amount over the forecast times 100 when the forecast is positive and 0
  otherwise; the return on investment is the net amount over the cost times 100 when
  the cost is positive and 0 otherwise. The net amount is forecast less cost unless the
  frame brings its own column. Every row of the frame gets its result: no division is
  made outside its mask.
\<close>

theorem roi_metrics_guarded:
  assumes "Oppo_Forecast row = Numeric forecast" and "oppo_cout row = Numeric cost"
  shows "margin_percentage (roi_metrics_row existing row) =
           (if forecast > 0 then net_amount (roi_metrics_row existing row) / forecast * 100 else 0)
     \<and> roi_percentage (roi_metrics_row existing row) =
           (if cost > 0 then net_amount (roi_metrics_row existing row) / cost * 100 else 0)
     \<and> net_amount (roi_metrics_row None row) = forecast - cost
     \<and> net_amount (roi_metrics_row (Some n) row) = n
     \<and> calculate_roi_metrics None df = map (roi_metrics_row None) df
     \<and> length (calculate_roi_metrics None df) = length df"
  using assms
  by (simp add: roi_metrics_row_def Let_def to_numeric_fillna_def calculate_net_amount_def
      calculate_roi_metrics_def)

theorem roi_metrics_guarded_witness:
  "margin_percentage (roi_metrics_row None (example_row ''Won'' ''Qualified'' 80 ''FTK'')) = 80 \<and>
   roi_percentage (roi_metrics_row None (example_row ''Won'' ''Qualified'' 80 ''FTK'')) = 400 \<and>
   margin_percentage (roi_metrics_row None
     ((example_row ''Won'' ''Qualified'' 80 ''FTK'')\<lparr>Oppo_Forecast := Numeric 0\<rparr>)) = 0 \<and>
   roi_percentage (roi_metrics_row None
     ((example_row ''Won'' ''Qualified'' 80 ''FTK'')\<lparr>oppo_cout := Numeric (- 5)\<rparr>)) = 0"
proof -
  let ?r = "example_row ''Won'' ''Qualified'' 80 ''FTK''"
  note a = roi_metrics_guarded [where row = ?r and forecast = 1000 and cost = 200
      and existing = None and n = 0 and df = "[]"]
  note b = roi_metrics_guarded [where row = "?r\<lparr>Oppo_Forecast := Numeric 0\<rparr>" and forecast = 0
      and cost = 200 and existing = None and n = 0 and df = "[]"]
  note c = roi_metrics_guarded [where row = "?r\<lparr>oppo_cout := Numeric (- 5)\<rparr>"
      and forecast = 1000 and cost = "- 5" and existing = None and n = 0 and df = "[]"]
  have "margin_percentage (roi_metrics_row None ?r) = 80"
    and "roi_percentage (roi_metrics_row None ?r) = 400"
    using a by (simp_all add: example_row_def)
  moreover have "margin_percentage (roi_metrics_row None (?r\<lparr>Oppo_Forecast := Numeric 0\<rparr>)) = 0"
    using b by (simp add: example_row_def)
  moreover have "roi_percentage (roi_metrics_row None (?r\<lparr>oppo_cout := Numeric (- 5)\<rparr>)) = 0"
    using c by (simp add: example_row_def)
  ultimately show ?thesis by simp
qed

section \<open>Social networks\<close>

text \<open>
  C10. A social link whose network link is the placeholder is dropped before anything is
  resolved: no row of the result carries the placeholder, the result holds at most one
  row for each other input row, and exactly one, in the order of the input, when the
  contact ids are distinct. In the example the result has two rows for three input rows,
  and both rows resolve.
\<close>

theorem auto_links_dropped:
  "Some ''#AUTO#'' \<notin> network_link ` set (process_social_networks_with_associations social_df
       companies_df contacts_df)
   \<and> length (process_social_networks_with_associations social_df companies_df contacts_df)
       \<le> length (filter (\<lambda>r. sone_networklink r \<noteq> Some ''#AUTO#'') social_df)
   \<and> (distinct (map Pers_PersonId contacts_df) \<longrightarrow>
        map network_link (process_social_networks_with_associations social_df companies_df
          contacts_df)
        = filter (\<lambda>l. l \<noteq> Some ''#AUTO#'') (map sone_networklink social_df))
   \<and> length (process_social_networks_with_associations example_social example_companies
         example_contacts) < length example_social
   \<and> map association_status (process_social_networks_with_associations example_social
         example_companies example_contacts) = [''SUCCESS'', ''SUCCESS'']"
proof -
  let ?out = "process_social_networks_with_associations social_df companies_df contacts_df"
  have a: "Some ''#AUTO#'' \<notin> network_link ` set ?out"
    by (auto simp: process_social_networks_with_associations_def Let_def split: sum.splits)
  have b: "length ?out \<le> length (filter (\<lambda>r. sone_networklink r \<noteq> Some ''#AUTO#'') social_df)"
    by (simp add: process_social_networks_with_associations_def Let_def split: sum.splits)
  have c: "distinct (map Pers_PersonId contacts_df) \<longrightarrow>
      map network_link ?out = filter (\<lambda>l. l \<noteq> Some ''#AUTO#'') (map sone_networklink social_df)"
    by (simp add: process_social_networks_with_associations_def Let_def to_dict_index_def
        filter_map comp_def)
  have d: "length (process_social_networks_with_associations example_social example_companies
         example_contacts) < length example_social"
    by (simp add: process_social_networks_with_associations_def Let_def to_dict_index_def
        example_social_def example_contacts_def)
  have e: "map association_status (process_social_networks_with_associations example_social
         example_companies example_contacts) = [''SUCCESS'', ''SUCCESS'']"
    by (simp add: process_social_networks_with_associations_def Let_def to_dict_index_def
        example_social_def example_contacts_def example_companies_def
        check_association_status_def company_lookup_def)
  show ?thesis using a b c d e by blast
qed

theorem auto_links_dropped_witness:
  "distinct (map Pers_PersonId example_contacts) \<and>
   map network_link (process_social_networks_with_associations example_social example_companies
      example_contacts)
     = [Some ''https://www.linkedin.com/company/acme'', Some ''linkedin.com/in/bob'']"
proof -
  have d: "distinct (map Pers_PersonId example_contacts)"
    by (simp add: example_contacts_def)
  show ?thesis
    using auto_links_dropped [of example_social example_companies example_contacts] d
    by (simp add: example_social_def)
qed

section \<open>Site aggregation\<close>















lemma parent_records_result:
  "parent_records (process_site_aggregation now cs ps) =
     create_parent_records now (identify_domain_groups cs) ps cs"
  by (simp add: parent_records_def process_site_aggregation_def Let_def
      create_site_records_def site_row_def create_parent_records_def filter_map comp_def case_prod_unfold)



lemma parent_record_ids:
  "map company_id (create_parent_records now G ps cs) = map new_parent_id G"
  by (simp add: create_parent_records_def comp_def)








lemma result_without_date:
  "map (\<lambda>r. r\<lparr>processed_date := ''''\<rparr>) (process_site_aggregation now1 cs ps) =
   map (\<lambda>r. r\<lparr>processed_date := ''''\<rparr>) (process_site_aggregation now2 cs ps)"
  by (simp add: process_site_aggregation_def Let_def create_site_records_def site_row_def
      create_parent_records_def comp_def case_prod_unfold)

lemma field_without_date:
  assumes "\<And>r. h (r\<lparr>processed_date := ''''\<rparr>) = h r"
  shows "map h (process_site_aggregation now1 cs ps) = map h (process_site_aggregation now2 cs ps)"
proof -
  let ?u = "\<lambda>r. r\<lparr>processed_date := ''''\<rparr>"
  have "map h (process_site_aggregation now1 cs ps) =
      map h (map ?u (process_site_aggregation now1 cs ps))"
    by (simp add: comp_def assms)
  also have "\<dots> = map h (map ?u (process_site_aggregation now2 cs ps))"
    by (simp only: result_without_date[of now1 cs ps now2])
  also have "\<dots> = map h (process_site_aggregation now2 cs ps)"
    by (simp add: comp_def assms)
  finally show ?thesis .
qed

text \<open>
  C5. Two runs on the same companies and contacts differ in the clock only. Their
  results are the same record for record but for the processed date: the same ids, the
  synthesized parent ids among them, the same parent of every record, the same record
  types and the same site order.
\<close>

theorem site_aggregation_two_runs:
  "map (\<lambda>r. r\<lparr>processed_date := ''''\<rparr>) (process_site_aggregation now1 cs ps) =
     map (\<lambda>r. r\<lparr>processed_date := ''''\<rparr>) (process_site_aggregation now2 cs ps)
   \<and> map company_id (process_site_aggregation now1 cs ps) =
       map company_id (process_site_aggregation now2 cs ps)
   \<and> map parent_company_id (process_site_aggregation now1 cs ps) =
       map parent_company_id (process_site_aggregation now2 cs ps)
   \<and> map record_type (process_site_aggregation now1 cs ps) =
       map record_type (process_site_aggregation now2 cs ps)
   \<and> map site_order (process_site_aggregation now1 cs ps) =
       map site_order (process_site_aggregation now2 cs ps)
   \<and> map company_id (parent_records (process_site_aggregation now1 cs ps)) =
       map company_id (parent_records (process_site_aggregation now2 cs ps))"
proof -
  have "map company_id (parent_records (process_site_aggregation now1 cs ps)) =
       map company_id (parent_records (process_site_aggregation now2 cs ps))"
    by (simp add: parent_records_result parent_record_ids)
  then show ?thesis
    using result_without_date[of now1 cs ps now2]
      field_without_date[of company_id now1 cs ps now2]
      field_without_date[of parent_company_id now1 cs ps now2]
      field_without_date[of record_type now1 cs ps now2]
      field_without_date[of site_order now1 cs ps now2]
    by simp
qed






end
